theory Spec2Isabelle
  imports Main "HOL-Library.Multiset" "HOL-Library.Word"
begin

section \<open>The header \<open>xpc_wrapper.h\<close>\<close>

text \<open>
  The repository's source is one C header of 25 lines. It holds an include guard, three
  system includes and thirteen \<open>extern\<close> declarations; no function has a body here.
  The header is embedded line by line: a C type as it is written in the declarations, a
  declaration as a variable or a function prototype, and a line of the file as a
  preprocessor directive, a declaration or a blank line.
\<close>

datatype ctype =
    TVoid
  | TBool
  | TNamed string
  | TPtr ctype

datatype decl =
    ExternVar ctype string
  | ExternFun ctype string "ctype list"

datatype line =
    Ifndef string
  | Define string
  | Include string
  | Extern decl
  | Endif
  | Blank

text \<open>The file, line 1 to line 25.\<close>

definition xpc_wrapper_h :: "line list" where
  "xpc_wrapper_h =
    [ Ifndef ''_WRAPPER_H_'',
      Define ''_WRAPPER_H_'',
      Blank,
      Include ''stdlib.h'',
      Include ''stdio.h'',
      Include ''xpc/xpc.h'',
      Blank,
      Extern (ExternVar (TNamed ''xpc_type_t'') ''TYPE_ERROR''),
      Blank,
      Extern (ExternVar (TNamed ''xpc_type_t'') ''TYPE_ARRAY''),
      Extern (ExternVar (TNamed ''xpc_type_t'') ''TYPE_DATA''),
      Extern (ExternVar (TNamed ''xpc_type_t'') ''TYPE_DICT''),
      Extern (ExternVar (TNamed ''xpc_type_t'') ''TYPE_INT64''),
      Extern (ExternVar (TNamed ''xpc_type_t'') ''TYPE_STRING''),
      Blank,
      Extern (ExternVar (TNamed ''xpc_object_t'') ''ERROR_CONNECTION_INVALID''),
      Extern (ExternVar (TNamed ''xpc_object_t'') ''ERROR_CONNECTION_INTERRUPTED''),
      Extern (ExternVar (TNamed ''xpc_object_t'') ''ERROR_CONNECTION_TERMINATED''),
      Blank,
      Extern (ExternFun (TNamed ''xpc_connection_t'') ''XpcConnectBlued'' [TPtr TVoid]),
      Extern (ExternFun TVoid ''XpcSendMessage''
                [TNamed ''xpc_connection_t'', TNamed ''xpc_object_t'', TBool]),
      Extern (ExternFun TVoid ''XpcArrayApply'' [TPtr TVoid, TNamed ''xpc_object_t'']),
      Extern (ExternFun TVoid ''XpcDictApply'' [TPtr TVoid, TNamed ''xpc_object_t'']),
      Blank,
      Endif ]"

subsection \<open>The declarations of the file\<close>

fun decls_of :: "line list \<Rightarrow> decl list" where
  "decls_of [] = []"
| "decls_of (Extern d # ls) = d # decls_of ls"
| "decls_of (l # ls) = decls_of ls"

definition exported_decls :: "decl list" where
  "exported_decls = decls_of xpc_wrapper_h"

fun is_function :: "decl \<Rightarrow> bool" where
  "is_function (ExternFun r n ps) = True"
| "is_function (ExternVar t n) = False"

fun decl_name :: "decl \<Rightarrow> string" where
  "decl_name (ExternFun r n ps) = n"
| "decl_name (ExternVar t n) = n"

fun is_variable_of :: "ctype \<Rightarrow> decl \<Rightarrow> bool" where
  "is_variable_of t (ExternVar t' n) = (t' = t)"
| "is_variable_of t (ExternFun r n ps) = False"

definition exported_functions :: "decl list" where
  "exported_functions = filter is_function exported_decls"

text \<open>
  The roles the header's types play: \<open>xpc_connection_t\<close> is the connection handle,
  \<open>xpc_object_t\<close> the message object, \<open>xpc_type_t\<close> the type token, \<open>void *\<close> the
  opaque descriptor or context pointer.
\<close>

definition connection_handle :: ctype where
  "connection_handle = TNamed ''xpc_connection_t''"

definition message_object :: ctype where
  "message_object = TNamed ''xpc_object_t''"

definition type_token :: ctype where
  "type_token = TNamed ''xpc_type_t''"

definition opaque_pointer :: ctype where
  "opaque_pointer = TPtr TVoid"

definition type_token_names :: "string list" where
  "type_token_names = map decl_name (filter (is_variable_of type_token) exported_decls)"

definition error_sentinel_names :: "string list" where
  "error_sentinel_names = map decl_name (filter (is_variable_of message_object) exported_decls)"

text \<open>The prototype declared under a name: return type and parameter types.\<close>

fun prototype_in :: "decl list \<Rightarrow> string \<Rightarrow> (ctype \<times> ctype list) option" where
  "prototype_in [] f = None"
| "prototype_in (ExternFun r n ps # ds) f = (if n = f then Some (r, ps) else prototype_in ds f)"
| "prototype_in (ExternVar t n # ds) f = prototype_in ds f"

definition prototype :: "string \<Rightarrow> (ctype \<times> ctype list) option" where
  "prototype f = prototype_in exported_decls f"

section \<open>Including the header\<close>

text \<open>
  The preprocessor, as far as the header uses it. Its state is the set of macros defined
  so far and what the translation unit has received so far: in order, the system headers
  pulled in and the declarations of this file. A stack of flags follows the open
  \<open>#ifndef\<close> groups; a flag tells whether the lines of its group are processed, and a
  group inside a skipped group is skipped. \<open>#endif\<close> without an open group and an
  end of file inside a group are errors, the value \<open>None\<close>.

  The system headers are not part of the repository. What they do to the macros is the
  parameter \<open>sys\<close>: \<open>sys h M\<close> is the set of macros defined after \<open>#include <h>\<close> is
  processed with the macros \<open>M\<close> defined.
\<close>

datatype item =
    SystemHeader string
  | Declared decl

record cpp_state =
  macros :: "string set"
  emitted :: "item list"

type_synonym system_headers = "string \<Rightarrow> string set \<Rightarrow> string set"

fun active :: "bool list \<Rightarrow> bool" where
  "active [] = True"
| "active (c # cs) = c"

fun cpp :: "system_headers \<Rightarrow> line list \<Rightarrow> bool list \<Rightarrow> cpp_state \<Rightarrow> cpp_state option" where
  "cpp sys [] conds st = (if conds = [] then Some st else None)"
| "cpp sys (Ifndef m # ls) conds st =
     cpp sys ls ((active conds \<and> m \<notin> macros st) # conds) st"
| "cpp sys (Endif # ls) conds st =
     (case conds of [] \<Rightarrow> None | c # cs \<Rightarrow> cpp sys ls cs st)"
| "cpp sys (Define m # ls) conds st =
     cpp sys ls conds
       (if active conds then st\<lparr>macros := insert m (macros st)\<rparr> else st)"
| "cpp sys (Include h # ls) conds st =
     cpp sys ls conds
       (if active conds
        then st\<lparr>macros := sys h (macros st), emitted := emitted st @ [SystemHeader h]\<rparr>
        else st)"
| "cpp sys (Extern d # ls) conds st =
     cpp sys ls conds
       (if active conds then st\<lparr>emitted := emitted st @ [Declared d]\<rparr> else st)"
| "cpp sys (Blank # ls) conds st = cpp sys ls conds st"

text \<open>One \<open>#include "xpc_wrapper.h"\<close>, and a translation unit that has \<open>n\<close> of them.\<close>

definition include_header :: "system_headers \<Rightarrow> cpp_state \<Rightarrow> cpp_state option" where
  "include_header sys st = cpp sys xpc_wrapper_h [] st"

fun include_times :: "system_headers \<Rightarrow> nat \<Rightarrow> cpp_state \<Rightarrow> cpp_state option" where
  "include_times sys 0 st = Some st"
| "include_times sys (Suc n) st =
     (case include_header sys st of
        None \<Rightarrow> None
      | Some st' \<Rightarrow> include_times sys n st')"

definition guard :: string where
  "guard = ''_WRAPPER_H_''"

text \<open>The system headers leave the guard macro defined once it is.\<close>

definition keeps_guard :: "system_headers \<Rightarrow> bool" where
  "keeps_guard sys = (\<forall>h M. guard \<in> M \<longrightarrow> guard \<in> sys h M)"

text \<open>System headers that define the usual guards of their own, for the examples.\<close>

definition sys_guards :: system_headers where
  "sys_guards h M = insert (''_SYS_'' @ h) M"

definition fresh_unit :: cpp_state where
  "fresh_unit = \<lparr>macros = {}, emitted = []\<rparr>"

section \<open>The traversals\<close>

text \<open>
  Modelled from the spec: the message object. The type \<open>xpc_object_t\<close> comes from
  \<open>xpc/xpc.h\<close>, which is not among the sources. The spec's data model calls it a
  dynamically typed value, one of array, byte buffer, dictionary, 64-bit integer, string
  or error. A dictionary is kept as the list of its key/value entries.
\<close>

datatype xpc_object =
    XArray "xpc_object list"
  | XData "8 word list"
  | XDictionary "(string \<times> xpc_object) list"
  | XInt64 "64 word"
  | XString string
  | XError

type_synonym pointer = nat

text \<open>
  Modelled from the spec: calling a visitor on the items of a traversal one after the
  other. The visitor works by side effect only, so it takes the state of the caller's
  world and returns the new one.
\<close>

fun for_each :: "('a \<Rightarrow> 'w \<Rightarrow> 'w) \<Rightarrow> 'a list \<Rightarrow> 'w \<Rightarrow> 'w" where
  "for_each f [] w = w"
| "for_each f (x # xs) w = for_each f xs (f x w)"

text \<open>
  Modelled from the spec: the body of \<open>XpcArrayApply\<close>, which is in the repository's
  C file and not among the sources (the header has the prototype only). The spec:
  array-apply invokes a visitor callback, identified by the opaque context pointer, once
  per element of an array-typed message object, in the array's existing order; side
  effect only, no aggregated result. The spec gives no behaviour on an object that is not
  an array: \<open>None\<close>.
\<close>

definition XpcArrayApply ::
  "(pointer \<Rightarrow> xpc_object \<Rightarrow> 'w \<Rightarrow> 'w) \<Rightarrow> pointer \<Rightarrow> xpc_object \<Rightarrow> 'w \<Rightarrow> 'w option" where
  "XpcArrayApply visit ctx obj w =
     (case obj of
        XArray xs \<Rightarrow> Some (for_each (visit ctx) xs w)
      | _ \<Rightarrow> None)"

text \<open>
  Modelled from the spec: the iteration order of a dictionary. The spec: the iteration
  order is whatever the external library defines for its map objects, commonly unordered
  or insertion order, and not guaranteed. The library's choice is the parameter \<open>rank\<close>,
  a ranking of the keys (a hash of the key, say): the traversal takes the entries by
  ascending rank, and entries of equal rank in the order the dictionary holds them, so
  that a constant rank is insertion order. No property of \<open>rank\<close> is assumed.
\<close>

definition iteration_order ::
  "(string \<Rightarrow> nat) \<Rightarrow> (string \<times> xpc_object) list \<Rightarrow> (string \<times> xpc_object) list" where
  "iteration_order rank es = sort_key (\<lambda>(k, v). rank k) es"

text \<open>
  Modelled from the spec: the body of \<open>XpcDictApply\<close>, which is in the repository's
  C file and not among the sources. The spec: dict-apply invokes a visitor callback once
  per key/value pair of a dictionary-typed message object, in the iteration order of the
  external library. The spec gives no behaviour on an object that is not a dictionary:
  \<open>None\<close>.
\<close>

definition XpcDictApply ::
  "(string \<Rightarrow> nat) \<Rightarrow> (pointer \<Rightarrow> string \<Rightarrow> xpc_object \<Rightarrow> 'w \<Rightarrow> 'w) \<Rightarrow> pointer \<Rightarrow> xpc_object
     \<Rightarrow> 'w \<Rightarrow> 'w option" where
  "XpcDictApply rank visit ctx obj w =
     (case obj of
        XDictionary es \<Rightarrow> Some (for_each (\<lambda>(k, v). visit ctx k v) (iteration_order rank es) w)
      | _ \<Rightarrow> None)"

text \<open>The place of a key in a list of keys, counted from 0.\<close>

fun position :: "'a \<Rightarrow> 'a list \<Rightarrow> nat" where
  "position x [] = 0"
| "position x (y # ys) = (if x = y then 0 else Suc (position x ys))"

text \<open>
  Visitors that only record their own invocations: the world is the log of the calls
  made so far, each with the context pointer and the arguments it got.
\<close>

definition log_element ::
  "pointer \<Rightarrow> xpc_object \<Rightarrow> (pointer \<times> xpc_object) list \<Rightarrow> (pointer \<times> xpc_object) list" where
  "log_element ctx x calls = calls @ [(ctx, x)]"

definition log_entry ::
  "pointer \<Rightarrow> string \<Rightarrow> xpc_object \<Rightarrow> (pointer \<times> string \<times> xpc_object) list
     \<Rightarrow> (pointer \<times> string \<times> xpc_object) list" where
  "log_entry ctx k v calls = calls @ [(ctx, k, v)]"

section \<open>The declarations, evaluated\<close>

lemma exported_decls_eq:
  "exported_decls =
    [ ExternVar (TNamed ''xpc_type_t'') ''TYPE_ERROR'',
      ExternVar (TNamed ''xpc_type_t'') ''TYPE_ARRAY'',
      ExternVar (TNamed ''xpc_type_t'') ''TYPE_DATA'',
      ExternVar (TNamed ''xpc_type_t'') ''TYPE_DICT'',
      ExternVar (TNamed ''xpc_type_t'') ''TYPE_INT64'',
      ExternVar (TNamed ''xpc_type_t'') ''TYPE_STRING'',
      ExternVar (TNamed ''xpc_object_t'') ''ERROR_CONNECTION_INVALID'',
      ExternVar (TNamed ''xpc_object_t'') ''ERROR_CONNECTION_INTERRUPTED'',
      ExternVar (TNamed ''xpc_object_t'') ''ERROR_CONNECTION_TERMINATED'',
      ExternFun (TNamed ''xpc_connection_t'') ''XpcConnectBlued'' [TPtr TVoid],
      ExternFun TVoid ''XpcSendMessage''
        [TNamed ''xpc_connection_t'', TNamed ''xpc_object_t'', TBool],
      ExternFun TVoid ''XpcArrayApply'' [TPtr TVoid, TNamed ''xpc_object_t''],
      ExternFun TVoid ''XpcDictApply'' [TPtr TVoid, TNamed ''xpc_object_t''] ]"
  by (simp add: exported_decls_def xpc_wrapper_h_def)

text \<open>
  C1. The binding surface exports exactly four functions, with exactly these signatures:
  connect (\<open>XpcConnectBlued\<close>) takes one opaque descriptor pointer and returns a
  connection handle; send (\<open>XpcSendMessage\<close>) takes a connection handle, a message
  object and a boolean flag and returns void; array-apply (\<open>XpcArrayApply\<close>) and
  dict-apply (\<open>XpcDictApply\<close>) each take an opaque context pointer and a message object
  and return void.
\<close>

theorem four_exported_functions:
  "map decl_name exported_functions =
     [''XpcConnectBlued'', ''XpcSendMessage'', ''XpcArrayApply'', ''XpcDictApply'']
   \<and> length exported_functions = 4
   \<and> prototype ''XpcConnectBlued'' = Some (connection_handle, [opaque_pointer])
   \<and> prototype ''XpcSendMessage'' = Some (TVoid, [connection_handle, message_object, TBool])
   \<and> prototype ''XpcArrayApply'' = Some (TVoid, [opaque_pointer, message_object])
   \<and> prototype ''XpcDictApply'' = Some (TVoid, [opaque_pointer, message_object])"
  by (simp add: exported_functions_def prototype_def exported_decls_eq
      connection_handle_def message_object_def opaque_pointer_def)

section \<open>The include guard\<close>

lemma include_skipped:
  "guard \<in> macros st \<Longrightarrow> include_header sys st = Some st"
  by (simp add: include_header_def xpc_wrapper_h_def guard_def)

lemma include_first:
  "guard \<notin> macros st \<Longrightarrow>
   include_header sys st =
     Some (st\<lparr>macros := sys ''xpc/xpc.h'' (sys ''stdio.h'' (sys ''stdlib.h''
                 (insert guard (macros st)))),
              emitted := emitted st
                 @ [SystemHeader ''stdlib.h'', SystemHeader ''stdio.h'', SystemHeader ''xpc/xpc.h'']
                 @ map Declared exported_decls\<rparr>)"
  by (simp add: include_header_def xpc_wrapper_h_def guard_def exported_decls_def)

lemma include_defines_guard:
  assumes "keeps_guard sys" and "include_header sys st = Some st'"
  shows "guard \<in> macros st'"
proof (cases "guard \<in> macros st")
  case True
  with assms(2) show ?thesis by (simp add: include_skipped)
next
  case False
  have "guard \<in> sys ''xpc/xpc.h'' (sys ''stdio.h'' (sys ''stdlib.h''
          (insert guard (macros st))))"
    using assms(1) by (simp add: keeps_guard_def)
  with False assms(2) show ?thesis by (auto simp add: include_first)
qed

lemma include_total: "\<exists>st'. include_header sys st = Some st'"
  by (cases "guard \<in> macros st") (simp_all add: include_skipped include_first)

lemma include_again:
  "guard \<in> macros st \<Longrightarrow> include_times sys n st = Some st"
  by (induction n) (simp_all add: include_skipped)

text \<open>
  C10. Including the header more than once in one translation unit is idempotent: the
  include guard makes every inclusion after the first contribute no declarations, so
  repeated inclusion yields the same declarations as a single inclusion. Here: the first
  inclusion succeeds and gives a state \<open>st1\<close>; one more inclusion from \<open>st1\<close> gives
  \<open>st1\<close> again (nothing is emitted, no macro changes); and \<open>n + 1\<close> inclusions in a row
  give \<open>st1\<close>, whatever was defined and emitted before the first.
\<close>

theorem include_idempotent:
  assumes "keeps_guard sys"
  shows "\<exists>st1. include_header sys st = Some st1
            \<and> include_header sys st1 = Some st1
            \<and> include_times sys (Suc n) st = Some st1"
proof -
  obtain st1 where first: "include_header sys st = Some st1"
    using include_total by blast
  have defined: "guard \<in> macros st1"
    using assms first by (rule include_defines_guard)
  have "include_header sys st1 = Some st1"
    using defined by (rule include_skipped)
  moreover have "include_times sys (Suc n) st = Some st1"
    using first defined by (simp add: include_again)
  ultimately show ?thesis using first by blast
qed

theorem include_idempotent_witness:
  "keeps_guard sys_guards
   \<and> (\<exists>st1. include_header sys_guards fresh_unit = Some st1
          \<and> include_header sys_guards st1 = Some st1
          \<and> include_times sys_guards (Suc 2) fresh_unit = Some st1
          \<and> map Declared exported_decls = drop 3 (emitted st1))"
proof -
  have k: "keeps_guard sys_guards"
    by (simp add: keeps_guard_def sys_guards_def)
  obtain st1 where st1: "include_header sys_guards fresh_unit = Some st1"
      "include_header sys_guards st1 = Some st1"
      "include_times sys_guards (Suc 2) fresh_unit = Some st1"
    using include_idempotent [OF k, of fresh_unit 2] by blast
  have "guard \<notin> macros fresh_unit"
    by (simp add: fresh_unit_def)
  then have "emitted st1 =
      [SystemHeader ''stdlib.h'', SystemHeader ''stdio.h'', SystemHeader ''xpc/xpc.h'']
      @ map Declared exported_decls"
    using st1(1) by (auto simp add: include_first fresh_unit_def)
  then have "map Declared exported_decls = drop 3 (emitted st1)"
    by simp
  with k st1 show ?thesis by blast
qed

text \<open>
  C2, as the header has it. The binding surface exports exactly six type-token
  variables, the tokens for error, array, data, dictionary, int64 and string, and no
  others: the variables of type \<open>xpc_type_t\<close> are these six, under six different
  names.
\<close>

theorem six_type_tokens:
  "type_token_names =
     [''TYPE_ERROR'', ''TYPE_ARRAY'', ''TYPE_DATA'', ''TYPE_DICT'', ''TYPE_INT64'',
      ''TYPE_STRING'']
   \<and> length type_token_names = 6
   \<and> distinct type_token_names"
  by (simp add: type_token_names_def type_token_def exported_decls_eq)

text \<open>
  C2, as the spec words it, says that exactly five type-token variables are exported.
  The count of the exported variables of type \<open>xpc_type_t\<close> is not five.
\<close>

theorem five_type_tokens_counterexample:
  "length type_token_names \<noteq> 5"
  by (simp add: type_token_names_def type_token_def exported_decls_eq)

text \<open>
  The variables of type \<open>xpc_object_t\<close> are the three error sentinels. The header
  declares the variables; the objects they hold come from the external library.
\<close>

lemma three_error_sentinels:
  "error_sentinel_names =
     [''ERROR_CONNECTION_INVALID'', ''ERROR_CONNECTION_INTERRUPTED'',
      ''ERROR_CONNECTION_TERMINATED'']"
  by (simp add: error_sentinel_names_def message_object_def exported_decls_eq)

section \<open>The traversals visit every item once\<close>

lemma for_each_log:
  "for_each (\<lambda>x calls. calls @ [g x]) xs calls = calls @ map g xs"
  by (induction xs arbitrary: calls) simp_all

text \<open>
  C5. For every array-typed message object, array-apply invokes the visitor callback
  exactly once per element, in the array's order: the calls a recording visitor logs are
  the elements of the array, in order, each with the context pointer. For the empty array
  the visitor is not invoked and the world of any visitor is returned as it was.
\<close>

theorem array_apply_once_per_element:
  "XpcArrayApply log_element ctx (XArray xs) calls = Some (calls @ map (Pair ctx) xs)
   \<and> XpcArrayApply visit ctx (XArray []) w = Some w"
proof -
  have "log_element ctx = (\<lambda>x calls. calls @ [Pair ctx x])"
    by (rule ext)+ (simp add: log_element_def)
  then have "for_each (log_element ctx) xs calls = calls @ map (Pair ctx) xs"
    by (simp only: for_each_log)
  then show ?thesis
    by (simp add: XpcArrayApply_def)
qed

subsection \<open>Every arrangement of a dictionary is an iteration order\<close>

text \<open>
  The ranking of the keys takes no order away from the library: the entries of a
  dictionary (its keys differ), arranged in any way at all, are the iteration order
  under the ranking that gives each key its place in that arrangement.
\<close>

lemma position_places:
  "distinct ks \<Longrightarrow> map (\<lambda>k. position k ks) ks = [0..<length ks]"
proof (induction ks)
  case Nil
  show ?case by simp
next
  case (Cons a ks)
  then have "map (\<lambda>k. position k (a # ks)) ks = map (\<lambda>k. Suc (position k ks)) ks"
    by auto
  also have "\<dots> = map Suc (map (\<lambda>k. position k ks) ks)"
    by simp
  also have "\<dots> = map Suc [0..<length ks]"
    using Cons by simp
  also have "\<dots> = [Suc 0..<Suc (length ks)]"
    by (simp only: map_Suc_upt)
  finally have rest: "map (\<lambda>k. position k (a # ks)) ks = [Suc 0..<Suc (length ks)]" .
  have "map (\<lambda>k. position k (a # ks)) (a # ks) = 0 # map (\<lambda>k. position k (a # ks)) ks"
    by simp
  also have "\<dots> = 0 # [Suc 0..<Suc (length ks)]"
    by (simp only: rest)
  also have "\<dots> = [0..<Suc (length ks)]"
    by (metis upt_conv_Cons zero_less_Suc)
  finally show ?case
    by simp
qed

lemma any_arrangement_is_an_iteration_order:
  assumes keys: "distinct (map fst es)" and perm: "mset ys = mset es"
  shows "iteration_order (\<lambda>k. position k (map fst ys)) es = ys"
proof -
  let ?f = "\<lambda>(k, v). position k (map fst ys)"
  have "mset (map fst ys) = mset (map fst es)"
    using perm by simp
  then have dys: "distinct (map fst ys)"
    using keys by (metis mset_eq_imp_distinct_iff)
  have "map ?f ys = map (\<lambda>k. position k (map fst ys)) (map fst ys)"
    by (simp add: case_prod_unfold comp_def)
  also have "\<dots> = [0..<length (map fst ys)]"
    using dys by (rule position_places)
  finally have places: "map ?f ys = [0..<length ys]"
    by simp
  then have "sorted (map ?f ys)"
    by simp
  moreover have "inj_on ?f (set es)"
  proof -
    have "distinct (map ?f ys)"
      using places by simp
    then have "inj_on ?f (set ys)"
      by (simp add: distinct_map)
    moreover have "set ys = set es"
      using perm by (rule mset_eq_setD)
    ultimately show ?thesis by simp
  qed
  moreover have "mset es = mset ys"
    using perm by simp
  ultimately have "sort_key ?f es = ys"
    by (intro sort_key_inj_key_eq)
  then show ?thesis
    by (simp add: iteration_order_def)
qed

text \<open>
  C6. For every dictionary-typed message object with N entries, dict-apply invokes the
  visitor callback exactly N times, once per entry, in no guaranteed order: whichever
  ranking the library iterates by, the calls a recording visitor logs are N, and as a
  multiset they are the entries of the dictionary, each with the context pointer.
\<close>

theorem dict_apply_once_per_entry:
  "\<exists>visited. XpcDictApply rank log_entry ctx (XDictionary es) calls = Some (calls @ visited)
      \<and> length visited = length es
      \<and> mset visited = mset (map (Pair ctx) es)"
proof -
  have "(\<lambda>(k, v). log_entry ctx k v) = (\<lambda>e calls. calls @ [Pair ctx e])"
    by (rule ext)+ (simp add: log_entry_def split: prod.splits)
  then have run: "for_each (\<lambda>(k, v). log_entry ctx k v) (iteration_order rank es) calls
                    = calls @ map (Pair ctx) (iteration_order rank es)"
    by (simp only: for_each_log)
  have perm: "mset (iteration_order rank es) = mset es"
    by (simp add: iteration_order_def)
  then have "length (iteration_order rank es) = length es"
    by (rule mset_eq_length)
  moreover have "mset (map (Pair ctx) (iteration_order rank es)) = mset (map (Pair ctx) es)"
    using perm by simp
  ultimately show ?thesis
    using run by (simp add: XpcDictApply_def)
qed

text \<open>
  The dictionary \<open>{name: "blued", id: 7}\<close> under two rankings: by the length of the
  key the entry \<open>id\<close> is visited first, by a constant ranking the entry \<open>name\<close> is.
  Both traversals make two calls, one per entry.
\<close>

theorem dict_apply_once_per_entry_witness:
  "(\<exists>visited.
      XpcDictApply length log_entry 3
        (XDictionary [(''name'', XString ''blued''), (''id'', XInt64 7)]) [] = Some ([] @ visited)
      \<and> length visited = length [(''name'', XString ''blued''), (''id'', XInt64 7)]
      \<and> mset visited
          = mset (map (Pair (3::nat)) [(''name'', XString ''blued''), (''id'', XInt64 7)]))
   \<and> XpcDictApply length log_entry 3
        (XDictionary [(''name'', XString ''blued''), (''id'', XInt64 7)]) []
      = Some [(3, ''id'', XInt64 7), (3, ''name'', XString ''blued'')]
   \<and> XpcDictApply (\<lambda>k. 0) log_entry 3
        (XDictionary [(''name'', XString ''blued''), (''id'', XInt64 7)]) []
      = Some [(3, ''name'', XString ''blued''), (3, ''id'', XInt64 7)]"
proof -
  have by_length: "XpcDictApply length log_entry 3
        (XDictionary [(''name'', XString ''blued''), (''id'', XInt64 7)]) []
      = Some [(3, ''id'', XInt64 7), (3, ''name'', XString ''blued'')]"
    by (simp add: XpcDictApply_def iteration_order_def log_entry_def)
  have as_held: "XpcDictApply (\<lambda>k. 0) log_entry 3
        (XDictionary [(''name'', XString ''blued''), (''id'', XInt64 7)]) []
      = Some [(3, ''name'', XString ''blued''), (3, ''id'', XInt64 7)]"
    by (simp add: XpcDictApply_def iteration_order_def log_entry_def)
  show ?thesis
    using by_length as_held dict_apply_once_per_entry
        [of length 3 "[(''name'', XString ''blued''), (''id'', XInt64 7)]" "[]"]
    by blast
qed

text \<open>
  The type names at the interface: connect returns, and send takes first, the type named
  \<open>xpc_connection_t\<close>; the messages of send and of the two traversals and the three
  error sentinels have the type named \<open>xpc_object_t\<close>. What the two names stand for
  is defined in \<open>xpc/xpc.h\<close>.
\<close>

lemma handle_and_object_type_names:
  "map_option fst (prototype ''XpcConnectBlued'') = Some (TNamed ''xpc_connection_t'')
   \<and> map_option (hd \<circ> snd) (prototype ''XpcSendMessage'') = Some (TNamed ''xpc_connection_t'')
   \<and> map_option (tl \<circ> snd) (prototype ''XpcSendMessage'') = Some [TNamed ''xpc_object_t'', TBool]
   \<and> map_option (tl \<circ> snd) (prototype ''XpcArrayApply'') = Some [TNamed ''xpc_object_t'']
   \<and> map_option (tl \<circ> snd) (prototype ''XpcDictApply'') = Some [TNamed ''xpc_object_t'']
   \<and> length (filter (is_variable_of (TNamed ''xpc_object_t'')) exported_decls) = 3"
  by (simp add: prototype_def exported_decls_eq)

end
